theory Spec2Isabelle
  imports Complex_Main
begin

section \<open>Data model\<close>

text \<open>
  The point cloud pipeline of \<^verbatim>\<open>cindir_pointcloud_manager.py\<close> (class
  \<^verbatim>\<open>PointCloudProcessor\<close>). Coordinates, colour channels and densities are
  64-bit floats in the program; here they are values of a type parameter \<open>'a\<close>, and
  every floating-point operation the code performs on them (division by 255.0 and
  65535.0, the comparison against the quantile) is a function of the library record
  below, so that no property of real arithmetic is assumed for them.
\<close>

type_synonym 'a vec3 = "'a \<times> 'a \<times> 'a"

text \<open>
  \<^verbatim>\<open>o3d.geometry.PointCloud\<close>: three vectors of 3D values. The geometry library
  represents absent colours or normals by an empty vector.
\<close>

record 'a pcd =
  points :: "'a vec3 list"
  pcd_colors :: "'a vec3 list"
  pcd_normals :: "'a vec3 list"

definition has_colors :: "'a pcd \<Rightarrow> bool" where
  "has_colors c = (points c \<noteq> [] \<and> length (pcd_colors c) = length (points c))"

definition has_normals :: "'a pcd \<Rightarrow> bool" where
  "has_normals c = (points c \<noteq> [] \<and> length (pcd_normals c) = length (points c))"

text \<open>The invariant of the data model: colours and normals, when present, are per point.\<close>

definition pcd_inv :: "'a pcd \<Rightarrow> bool" where
  "pcd_inv c =
     ((pcd_colors c = [] \<or> length (pcd_colors c) = length (points c)) \<and>
      (pcd_normals c = [] \<or> length (pcd_normals c) = length (points c)))"

text \<open>\<^verbatim>\<open>o3d.geometry.TriangleMesh\<close>: vertices and index triples into them.\<close>

record 'a tmesh =
  vertices :: "'a vec3 list"
  triangles :: "(nat \<times> nat \<times> nat) list"

text \<open>
  What \<^verbatim>\<open>create_from_point_cloud_poisson\<close> returns: the mesh and one density per
  vertex. Each vertex is kept together with its density.
\<close>

record 'a poisson_result =
  pr_vertices :: "('a vec3 \<times> 'a) list"
  pr_triangles :: "(nat \<times> nat \<times> nat) list"

text \<open>What \<^verbatim>\<open>laspy.read\<close> returns, as far as \<^verbatim>\<open>_load_las\<close> reads it.\<close>

record 'a las_data =
  las_x :: "'a list"
  las_y :: "'a list"
  las_z :: "'a list"
  las_red :: "'a list option"
  las_green :: "'a list option"
  las_blue :: "'a list option"

text \<open>
  The exceptions of the loader. \<open>UnsupportedFormat e\<close> is the
  \<^verbatim>\<open>ValueError(f"Unsupported file format: {file_ext}")\<close> that \<^verbatim>\<open>load_pointcloud\<close>
  raises itself; \<open>LoadFailure m\<close> is any exception of a reader, with its message.
\<close>

datatype load_error = UnsupportedFormat string | LoadFailure string

text \<open>A numpy array of dimension 0, 1 or 2 (a 2D array is the list of its rows).\<close>

datatype 'a ndarray = Arr0 'a | Arr1 "'a list" | Arr2 "'a list list"

text \<open>
  The collaborators of the pipeline (pathlib, numpy, laspy, the geometry library), as
  far as their results depend on the file system or on floating-point computation.
  \<open>Inl m\<close> is an exception raised by the collaborator. \<open>read_geometry_file\<close> is
  the cloud a PLY or PCD file holds, \<open>None\<close> when the file cannot be opened or
  parsed; \<open>normal_at\<close> is the normal the estimator computes for one index under a
  radius search; \<open>quantile_tenth\<close> is the value of \<^verbatim>\<open>np.quantile(d, 0.1)\<close> on a
  non-empty array.
\<close>

record 'a geometry_lib =
  pathlib_name :: "string \<Rightarrow> string"
  laspy_read :: "string \<Rightarrow> string + 'a las_data"
  read_geometry_file :: "string \<Rightarrow> 'a pcd option"
  read_text_rows :: "string \<Rightarrow> string + 'a list list"
  div_255 :: "'a \<Rightarrow> 'a"
  div_65535 :: "'a \<Rightarrow> 'a"
  normal_at :: "'a \<Rightarrow> 'a pcd \<Rightarrow> nat \<Rightarrow> 'a vec3"
  statistical_inliers :: "int \<Rightarrow> 'a \<Rightarrow> 'a pcd \<Rightarrow> string + nat list"
  voxel_cells :: "'a \<Rightarrow> 'a pcd \<Rightarrow> string + nat list list"
  mean3 :: "'a vec3 list \<Rightarrow> 'a vec3"
  poisson :: "int \<Rightarrow> 'a \<Rightarrow> 'a \<Rightarrow> 'a pcd \<Rightarrow> string + 'a poisson_result"
  quantile_tenth :: "'a list \<Rightarrow> 'a"
  float_less :: "'a \<Rightarrow> 'a \<Rightarrow> bool"

text \<open>
  The fields of \<^verbatim>\<open>PointCloudProcessor\<close>. \<open>original_point_count\<close> is the attribute
  that \<^verbatim>\<open>save_results\<close> reads with \<^verbatim>\<open>getattr(self, 'original_point_count', 0)\<close>:
  \<open>None\<close> when the object has no such attribute.
\<close>

record 'a processor =
  point_cloud :: "'a pcd option"
  mesh :: "'a tmesh option"
  normals :: "'a vec3 list option"
  colors :: "'a vec3 list option"
  metadata :: "(string \<times> string) list"
  original_point_count :: "int option"

text \<open>\<^verbatim>\<open>__init__\<close>: it creates no \<^verbatim>\<open>original_point_count\<close> attribute.\<close>

definition processor_init :: "'a processor" where
  "processor_init =
     \<lparr>point_cloud = None, mesh = None, normals = None, colors = None,
      metadata = [], original_point_count = None\<rparr>"

text \<open>What a method call does: it returns a boolean or lets an exception escape.\<close>

datatype ret = Returned bool | Raised string

text \<open>The messages the methods send to the logger.\<close>

datatype log_msg =
    LoadedPoints nat
  | LoadFailed load_error
  | NormalsEstimated
  | OutliersRemoved nat
  | Downsampled nat
  | MeshCreated nat
  | ResultsSaved string

section \<open>Loader\<close>

text \<open>\<^verbatim>\<open>str.rfind\<close>: the highest index of the character, or -1.\<close>

definition rfind :: "char \<Rightarrow> string \<Rightarrow> int" where
  "rfind c s =
     (case filter (\<lambda>i. s ! i = c) (rev [0..<length s]) of
        [] \<Rightarrow> -1
      | i # _ \<Rightarrow> int i)"

text \<open>
  \<^verbatim>\<open>PurePath.suffix\<close> on the final path component:
  \<^verbatim>\<open>i = name.rfind('.'); name[i:] if 0 < i < len(name) - 1 else ''\<close>.
\<close>

definition suffix :: "string \<Rightarrow> string" where
  "suffix name =
     (let i = rfind (CHR ''.'') name
      in if 0 < i \<and> i < int (length name) - 1 then drop (nat i) name else [])"

text \<open>\<^verbatim>\<open>str.lower\<close> on the ASCII letters; the other bytes are kept.\<close>

definition lower_char :: "char \<Rightarrow> char" where
  "lower_char c =
     (case map_of (zip ''ABCDEFGHIJKLMNOPQRSTUVWXYZ'' ''abcdefghijklmnopqrstuvwxyz'') c of
        None \<Rightarrow> c
      | Some l \<Rightarrow> l)"

definition lower :: "string \<Rightarrow> string" where
  "lower s = map lower_char s"

text \<open>\<^verbatim>\<open>file_ext = Path(file_path).suffix.lower()\<close>\<close>

definition file_ext :: "'a geometry_lib \<Rightarrow> string \<Rightarrow> string" where
  "file_ext L file_path = lower (suffix (pathlib_name L file_path))"

text \<open>
  \<^verbatim>\<open>o3d.utility.Vector3dVector\<close> of a 2D array: the conversion is refused (a cast
  error) unless every row has exactly three entries.
\<close>

definition Vector3dVector :: "'a list list \<Rightarrow> load_error + 'a vec3 list" where
  "Vector3dVector rows =
     (if list_all (\<lambda>r. length r = 3) rows
      then Inr (map (\<lambda>r. (r ! 0, r ! 1, r ! 2)) rows)
      else Inl (LoadFailure ''cast error''))"

text \<open>
  \<^verbatim>\<open>np.vstack((a, b, c)).transpose()\<close>: the three arrays must have one length; the
  result has one row \<open>[a\<^sub>i, b\<^sub>i, c\<^sub>i]\<close> per index.
\<close>

definition vstack_transpose :: "'a list \<Rightarrow> 'a list \<Rightarrow> 'a list \<Rightarrow> load_error + 'a list list" where
  "vstack_transpose a b c =
     (if length a = length b \<and> length b = length c
      then Inr (map (\<lambda>(x, y, z). [x, y, z]) (zip a (zip b c)))
      else Inl (LoadFailure ''all the input array dimensions must match''))"

definition load_las :: "'a geometry_lib \<Rightarrow> string \<Rightarrow> load_error + 'a pcd" where
  "load_las L file_path =
     (case laspy_read L file_path of
        Inl m \<Rightarrow> Inl (LoadFailure m)
      | Inr las \<Rightarrow>
          (case vstack_transpose (las_x las) (las_y las) (las_z las) of
             Inl e \<Rightarrow> Inl e
           | Inr rows \<Rightarrow>
               (case Vector3dVector rows of
                  Inl e \<Rightarrow> Inl e
                | Inr pts \<Rightarrow>
                    (case (las_red las, las_green las, las_blue las) of
                       (Some r, Some g, Some b) \<Rightarrow>
                         (case vstack_transpose r g b of
                            Inl e \<Rightarrow> Inl e
                          | Inr crows \<Rightarrow>
                              (case Vector3dVector (map (map (div_65535 L)) crows) of
                                 Inl e \<Rightarrow> Inl e
                               | Inr cs \<Rightarrow>
                                   Inr \<lparr>points = pts, pcd_colors = cs, pcd_normals = []\<rparr>))
                     | _ \<Rightarrow> Inr \<lparr>points = pts, pcd_colors = [], pcd_normals = []\<rparr>))))"

text \<open>
  \<^verbatim>\<open>o3d.io.read_point_cloud\<close>: the reader of the geometry library raises nothing
  when the file cannot be opened or parsed; it prints a warning and returns an empty
  point cloud.
\<close>

definition read_point_cloud :: "'a geometry_lib \<Rightarrow> string \<Rightarrow> 'a pcd" where
  "read_point_cloud L file_path =
     (case read_geometry_file L file_path of
        None \<Rightarrow> \<lparr>points = [], pcd_colors = [], pcd_normals = []\<rparr>
      | Some c \<Rightarrow> c)"

text \<open>\<^verbatim>\<open>_load_ply\<close> and \<^verbatim>\<open>_load_pcd\<close> return what the reader returns.\<close>

definition load_ply :: "'a geometry_lib \<Rightarrow> string \<Rightarrow> load_error + 'a pcd" where
  "load_ply L file_path = Inr (read_point_cloud L file_path)"

definition load_pcd :: "'a geometry_lib \<Rightarrow> string \<Rightarrow> load_error + 'a pcd" where
  "load_pcd L file_path = Inr (read_point_cloud L file_path)"

text \<open>
  \<^verbatim>\<open>np.loadtxt(file_path, delimiter=' ')\<close> on the rows of numbers of the file
  (\<open>read_text_rows\<close>: the lines split at single spaces and converted). Rows of
  different lengths are an error; axes of length one are squeezed away, so a file of
  one line or of one column is a 1D array, and an empty file is an empty 1D array.
\<close>

definition np_loadtxt :: "'a geometry_lib \<Rightarrow> string \<Rightarrow> load_error + 'a ndarray" where
  "np_loadtxt L file_path =
     (case read_text_rows L file_path of
        Inl m \<Rightarrow> Inl (LoadFailure m)
      | Inr rows \<Rightarrow>
          (case rows of
             [] \<Rightarrow> Inr (Arr1 [])
           | r # rs \<Rightarrow>
               if \<not> list_all (\<lambda>r'. length r' = length r) rs
               then Inl (LoadFailure ''the number of columns changed'')
               else if rs = [] then (case r of [v] \<Rightarrow> Inr (Arr0 v) | _ \<Rightarrow> Inr (Arr1 r))
               else if length r = 1 then Inr (Arr1 (map hd rows))
               else Inr (Arr2 rows)))"

text \<open>\<^verbatim>\<open>data.shape[1]\<close> of a 2D array.\<close>

definition shape1 :: "'a list list \<Rightarrow> nat" where
  "shape1 rows = (case rows of [] \<Rightarrow> 0 | r # _ \<Rightarrow> length r)"

text \<open>
  \<^verbatim>\<open>_load_xyz\<close>. \<^verbatim>\<open>data[:, :3]\<close> and \<^verbatim>\<open>data[:, 3:6]\<close> raise IndexError on an array
  that is not 2D. The colours are built whenever \<^verbatim>\<open>data.shape[1] > 3\<close>.
\<close>

definition load_xyz :: "'a geometry_lib \<Rightarrow> string \<Rightarrow> load_error + 'a pcd" where
  "load_xyz L file_path =
     (case np_loadtxt L file_path of
        Inl e \<Rightarrow> Inl e
      | Inr data \<Rightarrow>
          (case data of
             Arr2 rows \<Rightarrow>
               (case Vector3dVector (map (take 3) rows) of
                  Inl e \<Rightarrow> Inl e
                | Inr pts \<Rightarrow>
                    if shape1 rows > 3
                    then (case Vector3dVector
                                 (map (\<lambda>r. map (div_255 L) (take 3 (drop 3 r))) rows) of
                            Inl e \<Rightarrow> Inl e
                          | Inr cs \<Rightarrow> Inr \<lparr>points = pts, pcd_colors = cs, pcd_normals = []\<rparr>)
                    else Inr \<lparr>points = pts, pcd_colors = [], pcd_normals = []\<rparr>)
           | _ \<Rightarrow> Inl (LoadFailure ''too many indices for array'')))"

text \<open>The body of the \<^verbatim>\<open>try\<close> block of \<^verbatim>\<open>load_pointcloud\<close>, up to the assignment.\<close>

definition load_pointcloud_try :: "'a geometry_lib \<Rightarrow> string \<Rightarrow> load_error + 'a pcd" where
  "load_pointcloud_try L file_path =
     (let e = file_ext L file_path
      in if e = ''.las'' \<or> e = ''.laz'' then load_las L file_path
         else if e = ''.ply'' then load_ply L file_path
         else if e = ''.pcd'' then load_pcd L file_path
         else if e = ''.xyz'' then load_xyz L file_path
         else Inl (UnsupportedFormat e))"

text \<open>
  \<^verbatim>\<open>load_pointcloud\<close>: only \<^verbatim>\<open>self.point_cloud\<close> is assigned, and only when the
  reader has returned; every exception is caught, logged, and answered by False.
\<close>

definition load_pointcloud ::
  "'a geometry_lib \<Rightarrow> string \<Rightarrow> 'a processor \<Rightarrow> ret \<times> log_msg list \<times> 'a processor" where
  "load_pointcloud L file_path p =
     (case load_pointcloud_try L file_path of
        Inr c \<Rightarrow> (Returned True, [LoadedPoints (length (points c))], p\<lparr>point_cloud := Some c\<rparr>)
      | Inl e \<Rightarrow> (Returned False, [LoadFailed e], p))"

section \<open>Processing stages\<close>

text \<open>
  \<^verbatim>\<open>o3d.geometry.KDTreeSearchParamRadius\<close>: the constructor of the radius search
  parameter takes the radius and nothing else (a neighbour bound belongs to the
  hybrid search parameter); called with a further keyword argument it raises
  TypeError. The second argument is the \<^verbatim>\<open>max_nn\<close> keyword, \<open>None\<close> when absent.
\<close>

definition KDTreeSearchParamRadius :: "'a \<Rightarrow> int option \<Rightarrow> string + 'a" where
  "KDTreeSearchParamRadius radius max_nn =
     (case max_nn of
        None \<Rightarrow> Inr radius
      | Some k \<Rightarrow> Inl ''TypeError: __init__(): incompatible constructor arguments'')"

text \<open>
  Modelled from the spec: the normal estimator of the geometry library (section 4.3:
  "per-point normal array, same length and order as points"). It writes one normal
  per point into the cloud it is called on; \<open>normal_at\<close> is the normal it computes
  for one index.
\<close>

definition lib_estimate_normals :: "'a geometry_lib \<Rightarrow> 'a \<Rightarrow> 'a pcd \<Rightarrow> 'a pcd" where
  "lib_estimate_normals L search_param c =
     c\<lparr>pcd_normals := map (normal_at L search_param c) [0..<length (points c)]\<rparr>"

text \<open>
  \<^verbatim>\<open>estimate_normals\<close>. The argument
  \<^verbatim>\<open>KDTreeSearchParamRadius(radius=radius, max_nn=max_nn)\<close> is evaluated before the
  estimator is called, so its exception leaves the method before anything is
  assigned. \<^verbatim>\<open>self.normals = np.asarray(self.point_cloud.normals)\<close> would keep the
  normal array of the cloud of this call.
\<close>

definition estimate_normals ::
  "'a geometry_lib \<Rightarrow> 'a \<Rightarrow> int \<Rightarrow> 'a processor \<Rightarrow> ret \<times> log_msg list \<times> 'a processor" where
  "estimate_normals L radius max_nn p =
     (case point_cloud p of
        None \<Rightarrow> (Returned False, [], p)
      | Some c \<Rightarrow>
          (case KDTreeSearchParamRadius radius (Some max_nn) of
             Inl m \<Rightarrow> (Raised m, [], p)
           | Inr search_param \<Rightarrow>
               (let c' = lib_estimate_normals L search_param c
                in (Returned True, [NormalsEstimated],
                    p\<lparr>point_cloud := Some c', normals := Some (pcd_normals c')\<rparr>))))"

text \<open>
  Modelled from the spec: the subset selection behind the statistical outlier filter
  of the geometry library (section 4.2: "replaced by the filtered subset, preserving
  any associated colors/normals for retained points only"). \<open>idx\<close> are the indices
  of the retained points.
\<close>

definition select_by_index :: "'a pcd \<Rightarrow> nat list \<Rightarrow> 'a pcd" where
  "select_by_index c idx =
     \<lparr>points = map (\<lambda>i. points c ! i) idx,
      pcd_colors = (if has_colors c then map (\<lambda>i. pcd_colors c ! i) idx else []),
      pcd_normals = (if has_normals c then map (\<lambda>i. pcd_normals c ! i) idx else [])\<rparr>"

text \<open>
  \<^verbatim>\<open>remove_outliers\<close>: the filter returns the cleaned cloud (and the retained
  indices, which the method drops); the cloud is assigned after the call has returned.
\<close>

definition remove_outliers ::
  "'a geometry_lib \<Rightarrow> int \<Rightarrow> 'a \<Rightarrow> 'a processor \<Rightarrow> ret \<times> log_msg list \<times> 'a processor" where
  "remove_outliers L nb_neighbors std_ratio p =
     (case point_cloud p of
        None \<Rightarrow> (Returned False, [], p)
      | Some c \<Rightarrow>
          (case statistical_inliers L nb_neighbors std_ratio c of
             Inl m \<Rightarrow> (Raised m, [], p)
           | Inr idx \<Rightarrow>
               (let cleaned_pcd = select_by_index c idx
                in (Returned True, [OutliersRemoved (length (points cleaned_pcd))],
                    p\<lparr>point_cloud := Some cleaned_pcd\<rparr>))))"

text \<open>
  Modelled from the spec: voxel downsampling of the geometry library (section 4.4:
  "each non-empty cell contributes exactly one representative point, computed as the
  centroid (and, if present, averaged color)"). \<open>cells\<close> are the index sets of the
  non-empty cells, \<open>mean3\<close> the average.
\<close>

definition voxel_down_sample :: "'a geometry_lib \<Rightarrow> 'a pcd \<Rightarrow> nat list list \<Rightarrow> 'a pcd" where
  "voxel_down_sample L c cells =
     \<lparr>points = map (\<lambda>g. mean3 L (map (\<lambda>i. points c ! i) g)) cells,
      pcd_colors =
        (if has_colors c then map (\<lambda>g. mean3 L (map (\<lambda>i. pcd_colors c ! i) g)) cells else []),
      pcd_normals =
        (if has_normals c then map (\<lambda>g. mean3 L (map (\<lambda>i. pcd_normals c ! i) g)) cells else [])\<rparr>"

definition downsample ::
  "'a geometry_lib \<Rightarrow> 'a \<Rightarrow> 'a processor \<Rightarrow> ret \<times> log_msg list \<times> 'a processor" where
  "downsample L voxel_size p =
     (case point_cloud p of
        None \<Rightarrow> (Returned False, [], p)
      | Some c \<Rightarrow>
          (case voxel_cells L voxel_size c of
             Inl m \<Rightarrow> (Raised m, [], p)
           | Inr cells \<Rightarrow>
               (let downsampled = voxel_down_sample L c cells
                in (Returned True, [Downsampled (length (points downsampled))],
                    p\<lparr>point_cloud := Some downsampled\<rparr>))))"

text \<open>The position of vertex \<open>i\<close> after the masked vertices before it are gone.\<close>

definition new_index :: "bool list \<Rightarrow> nat \<Rightarrow> nat" where
  "new_index vertex_mask i = length (filter (\<lambda>b. \<not> b) (take i vertex_mask))"

text \<open>
  Modelled from the spec: \<^verbatim>\<open>remove_vertices_by_mask\<close> of the geometry library
  (section 4.5: "remove every vertex [marked], and remove/reindex all faces
  referencing a removed vertex"). A mask of another length than the vertex list is
  refused by the library.
\<close>

definition remove_vertices_by_mask :: "'a tmesh \<Rightarrow> bool list \<Rightarrow> string + 'a tmesh" where
  "remove_vertices_by_mask m vertex_mask =
     (if length vertex_mask \<noteq> length (vertices m)
      then Inl ''vertex_mask has a different size than vertices''
      else Inr
        \<lparr>vertices = map fst (filter (\<lambda>(v, b). \<not> b) (zip (vertices m) vertex_mask)),
         triangles =
           map (\<lambda>(i, j, k).
                  (new_index vertex_mask i, new_index vertex_mask j, new_index vertex_mask k))
             (filter (\<lambda>(i, j, k). \<not> (vertex_mask ! i \<or> vertex_mask ! j \<or> vertex_mask ! k))
                (triangles m))\<rparr>)"

text \<open>
  \<^verbatim>\<open>np.quantile(densities, 0.1)\<close>: on an empty array it raises (IndexError), on a
  non-empty one it returns the quantile.
\<close>

definition np_quantile :: "'a geometry_lib \<Rightarrow> 'a list \<Rightarrow> string + 'a" where
  "np_quantile L densities =
     (if densities = []
      then Inl ''IndexError: index -1 is out of bounds for axis 0 with size 0''
      else Inr (quantile_tenth L densities))"

text \<open>
  \<^verbatim>\<open>create_mesh\<close>. The tuple assignment happens once the reconstruction has
  returned, and before the quantile is computed; the pruning then works on
  \<^verbatim>\<open>self.mesh\<close> in place.
  \<^verbatim>\<open>vertices_to_remove = densities < np.quantile(densities, 0.1)\<close>
\<close>

definition create_mesh ::
  "'a geometry_lib \<Rightarrow> int \<Rightarrow> 'a \<Rightarrow> 'a \<Rightarrow> 'a processor \<Rightarrow> ret \<times> log_msg list \<times> 'a processor" where
  "create_mesh L depth width scale p =
     (case (point_cloud p, normals p) of
        (Some c, Some ns) \<Rightarrow>
          (case poisson L depth width scale c of
             Inl m \<Rightarrow> (Raised m, [], p)
           | Inr r \<Rightarrow>
               (let mesh0 = \<lparr>vertices = map fst (pr_vertices r), triangles = pr_triangles r\<rparr>;
                    densities = map snd (pr_vertices r)
                in (case np_quantile L densities of
                      Inl m \<Rightarrow> (Raised m, [], p\<lparr>mesh := Some mesh0\<rparr>)
                    | Inr q \<Rightarrow>
                        (let vertices_to_remove = map (\<lambda>d. float_less L d q) densities
                         in (case remove_vertices_by_mask mesh0 vertices_to_remove of
                               Inl m \<Rightarrow> (Raised m, [], p\<lparr>mesh := Some mesh0\<rparr>)
                             | Inr mesh1 \<Rightarrow>
                                 (Returned True, [MeshCreated (length (vertices mesh1))],
                                  p\<lparr>mesh := Some mesh1\<rparr>))))))
      | _ \<Rightarrow> (Returned False, [], p))"

section \<open>Persistence\<close>

text \<open>What the operating system answers to \<^verbatim>\<open>save_results\<close>.\<close>

record os_env =
  dir_exists :: "string \<Rightarrow> bool"
  makedirs_ok :: "string \<Rightarrow> bool"
  open_ok :: "string \<times> string \<Rightarrow> bool"

datatype json = JString string | JInt int

datatype 'a file_content =
    CloudPly "'a pcd"
  | MeshPly "'a tmesh"
  | JsonObject "(string \<times> json) list"

text \<open>The \<^verbatim>\<open>metadata\<close> dictionary of \<^verbatim>\<open>save_results\<close>, in the order of its keys.\<close>

definition metadata_dict :: "string \<Rightarrow> 'a processor \<Rightarrow> (string \<times> json) list" where
  "metadata_dict timestamp p =
     [(''processing_date'', JString timestamp),
      (''original_points'', JInt (case original_point_count p of None \<Rightarrow> 0 | Some n \<Rightarrow> n)),
      (''final_points'',
         JInt (case point_cloud p of None \<Rightarrow> 0 | Some c \<Rightarrow> int (length (points c)))),
      (''mesh_vertices'',
         JInt (case mesh p of None \<Rightarrow> 0 | Some m \<Rightarrow> int (length (vertices m)))),
      (''mesh_faces'',
         JInt (case mesh p of None \<Rightarrow> 0 | Some m \<Rightarrow> int (length (triangles m))))]"

text \<open>
  \<^verbatim>\<open>save_results\<close>: the result, the log and the files handed to the writers, in
  order. A file is the pair of the output directory and the file name
  (\<^verbatim>\<open>os.path.join\<close>). \<open>timestamp\<close> is \<^verbatim>\<open>datetime.now().strftime("%Y%m%d_%H%M%S")\<close>.
  The processor is not assigned to.
\<close>

definition save_results ::
  "os_env \<Rightarrow> string \<Rightarrow> string \<Rightarrow> 'a processor \<Rightarrow>
   ret \<times> log_msg list \<times> ((string \<times> string) \<times> 'a file_content) list" where
  "save_results E timestamp output_dir p =
     (if \<not> dir_exists E output_dir \<and> \<not> makedirs_ok E output_dir
      then (Raised ''makedirs'', [], [])
      else
        (let cloud_files =
               (case point_cloud p of
                  None \<Rightarrow> []
                | Some c \<Rightarrow>
                    [((output_dir, ''processed_cloud_'' @ timestamp @ ''.ply''), CloudPly c)]);
             mesh_files =
               (case mesh p of
                  None \<Rightarrow> []
                | Some m \<Rightarrow> [((output_dir, ''mesh_'' @ timestamp @ ''.ply''), MeshPly m)]);
             metadata_file = (output_dir, ''metadata_'' @ timestamp @ ''.json'')
         in if \<not> open_ok E metadata_file
            then (Raised ''open'', [], cloud_files @ mesh_files)
            else (Returned True, [ResultsSaved output_dir],
                  cloud_files @ mesh_files
                    @ [(metadata_file, JsonObject (metadata_dict timestamp p))])))"

section \<open>Sequences of stages\<close>

datatype 'a stage =
    Load string
  | RemoveOutliers int 'a
  | EstimateNormals 'a int
  | Downsample 'a
  | CreateMesh int 'a 'a

fun call_stage ::
  "'a geometry_lib \<Rightarrow> 'a stage \<Rightarrow> 'a processor \<Rightarrow> ret \<times> log_msg list \<times> 'a processor" where
  "call_stage L (Load file_path) p = load_pointcloud L file_path p"
| "call_stage L (RemoveOutliers nb_neighbors std_ratio) p = remove_outliers L nb_neighbors std_ratio p"
| "call_stage L (EstimateNormals radius max_nn) p = estimate_normals L radius max_nn p"
| "call_stage L (Downsample voxel_size) p = downsample L voxel_size p"
| "call_stage L (CreateMesh depth width scale) p = create_mesh L depth width scale p"

text \<open>The processor after a sequence of method calls, whatever each of them answered.\<close>

fun run_stages :: "'a geometry_lib \<Rightarrow> 'a stage list \<Rightarrow> 'a processor \<Rightarrow> 'a processor" where
  "run_stages L [] p = p"
| "run_stages L (s # ss) p = run_stages L ss (snd (snd (call_stage L s p)))"

fun is_estimate :: "'a stage \<Rightarrow> bool" where
  "is_estimate (EstimateNormals radius max_nn) = True"
| "is_estimate _ = False"

text \<open>
  The property that the normal array of the processor, when there is one, has one
  entry per point of the current cloud.
\<close>

definition normals_in_step :: "'a processor \<Rightarrow> bool" where
  "normals_in_step p =
     (case (point_cloud p, normals p) of
        (Some c, Some ns) \<Rightarrow> length ns = length (points c)
      | _ \<Rightarrow> True)"

text \<open>The three vertices a face refers to.\<close>

definition corners :: "'b list \<Rightarrow> nat \<times> nat \<times> nat \<Rightarrow> 'b \<times> 'b \<times> 'b" where
  "corners vs t = (case t of (i, j, k) \<Rightarrow> (vs ! i, vs ! j, vs ! k))"

definition faces_in_bounds :: "nat \<Rightarrow> (nat \<times> nat \<times> nat) list \<Rightarrow> bool" where
  "faces_in_bounds n ts = list_all (\<lambda>(i, j, k). i < n \<and> j < n \<and> k < n) ts"

section \<open>A small concrete library\<close>

text \<open>
  Collaborators over the rationals, for running the definitions: four text files, no
  readable PLY or PCD file, an outlier filter that keeps every
  point, a voxel grid of one cell, a reconstruction that returns the input points as
  vertices with densities 1, 2, 3, ... and a strip of triangles, and the quantile
  by linear interpolation.
\<close>

definition demo_quantile :: "rat list \<Rightarrow> rat" where
  "demo_quantile ds =
     (let s = sort ds; n = length ds; h = rat_of_nat (n - 1) / 10; k = nat \<lfloor>h\<rfloor>
      in if n = 0 then 0
         else if k + 1 < n then s ! k + (h - rat_of_nat k) * (s ! (k + 1) - s ! k)
         else s ! k)"

definition demo_mean3 :: "rat vec3 list \<Rightarrow> rat vec3" where
  "demo_mean3 vs =
     (let n = rat_of_nat (length vs)
      in (sum_list (map fst vs) / n,
          sum_list (map (fst \<circ> snd) vs) / n,
          sum_list (map (snd \<circ> snd) vs) / n))"

definition demo_lib :: "rat geometry_lib" where
  "demo_lib =
     \<lparr>pathlib_name = (\<lambda>file_path. rev (takeWhile (\<lambda>c. c \<noteq> CHR ''/'') (rev file_path))),
      laspy_read = (\<lambda>file_path. Inl ''No such file or directory''),
      read_geometry_file = (\<lambda>file_path. None),
      read_text_rows =
        (\<lambda>file_path.
           if file_path = ''scans/two.xyz'' then Inr [[0, 0, 0], [1, 1, 1]]
           else if file_path = ''scans/one.xyz'' then Inr [[1, 2, 3]]
           else if file_path = ''scans/xyzi.xyz'' then Inr [[1, 2, 3, 4], [5, 6, 7, 8]]
           else if file_path = ''scans/RGB.XYZ''
             then Inr [[0, 0, 0, 255, 0, 51], [1, 1, 1, 0, 255, 0]]
           else Inl ''No such file or directory''),
      div_255 = (\<lambda>v. v / 255),
      div_65535 = (\<lambda>v. v / 65535),
      normal_at = (\<lambda>search_param c i. (0, 0, 1)),
      statistical_inliers = (\<lambda>nb_neighbors std_ratio c. Inr [0..<length (points c)]),
      voxel_cells =
        (\<lambda>voxel_size c. Inr (if points c = [] then [] else [[0..<length (points c)]])),
      mean3 = demo_mean3,
      poisson =
        (\<lambda>depth width scale c.
           if has_normals c
           then Inr \<lparr>pr_vertices = zip (points c) (map rat_of_nat [1..<Suc (length (points c))]),
                     pr_triangles = map (\<lambda>i. (i, i + 1, i + 2)) [0..<length (points c) - 2]\<rparr>
           else Inl ''Point cloud has no normals''),
      quantile_tenth = demo_quantile,
      float_less = (\<lambda>a b. a < b)\<rparr>"

definition demo_cloud :: "rat pcd" where
  "demo_cloud =
     \<lparr>points = [(0, 0, 0), (1, 0, 0), (0, 1, 0), (0, 0, 1)],
      pcd_colors = [],
      pcd_normals = [(0, 0, 1), (0, 0, 1), (0, 0, 1), (0, 0, 1)]\<rparr>"

definition demo_processor :: "rat processor" where
  "demo_processor =
     \<lparr>point_cloud = Some demo_cloud, mesh = None,
      normals = Some [(0, 0, 1), (0, 0, 1), (0, 0, 1), (0, 0, 1)], colors = None,
      metadata = [], original_point_count = None\<rparr>"

definition demo_os :: os_env where
  "demo_os =
     \<lparr>dir_exists = (\<lambda>d. False), makedirs_ok = (\<lambda>d. True), open_ok = (\<lambda>f. True)\<rparr>"

section \<open>Auxiliary facts\<close>

lemmas stage_defs =
  load_pointcloud_def remove_outliers_def estimate_normals_def downsample_def create_mesh_def
  remove_vertices_by_mask_def KDTreeSearchParamRadius_def np_quantile_def

lemmas loader_defs =
  load_pointcloud_try_def load_xyz_def np_loadtxt_def Vector3dVector_def shape1_def
  file_ext_def suffix_def rfind_def lower_def lower_char_def load_ply_def load_pcd_def
  read_point_cloud_def

lemma call_stage_original_point_count:
  "original_point_count (snd (snd (call_stage L s p))) = original_point_count p"
  by (cases s) (auto simp: stage_defs Let_def split: sum.splits option.splits)

lemma run_stages_original_point_count:
  "original_point_count (run_stages L ss p) = original_point_count p"
  by (induction ss arbitrary: p) (simp_all add: call_stage_original_point_count)

lemma call_stage_normals:
  "\<not> is_estimate s \<Longrightarrow> normals (snd (snd (call_stage L s p))) = normals p"
  by (cases s) (auto simp: stage_defs Let_def split: sum.splits option.splits)

lemma run_stages_normals:
  "list_all (\<lambda>s. \<not> is_estimate s) ss \<Longrightarrow> normals (run_stages L ss p) = normals p"
  by (induction ss arbitrary: p) (simp_all add: call_stage_normals)

lemma new_index_less:
  "length vmask = length xs \<Longrightarrow> i < length xs \<Longrightarrow> \<not> vmask ! i \<Longrightarrow>
   new_index vmask i < length (filter (\<lambda>(v, b). \<not> b) (zip xs vmask))"
proof (induction xs vmask arbitrary: i rule: list_induct2')
  case (4 x xs b bs)
  then show ?case
    by (cases i) (auto simp: new_index_def)
qed (simp_all add: new_index_def)

lemma kept_nth:
  "length vmask = length xs \<Longrightarrow> i < length xs \<Longrightarrow> \<not> vmask ! i \<Longrightarrow>
   fst (filter (\<lambda>(v, b). \<not> b) (zip xs vmask) ! new_index vmask i) = xs ! i"
proof (induction xs vmask arbitrary: i rule: list_induct2')
  case (4 x xs b bs)
  then show ?case
    by (cases i) (auto simp: new_index_def)
qed (simp_all add: new_index_def)

lemma kept_filter:
  "map fst (filter (\<lambda>(v, b). \<not> b) (zip (map fst vds) (map f (map snd vds))))
   = map fst (filter (\<lambda>(v, d). \<not> f d) vds)"
  by (induction vds) auto

lemma remove_vertices_by_mask_faces:
  assumes len: "length vmask = length (vertices m)"
    and inb: "faces_in_bounds (length (vertices m)) (triangles m)"
    and res: "remove_vertices_by_mask m vmask = Inr m'"
  shows "faces_in_bounds (length (vertices m')) (triangles m') \<and>
         map (corners (vertices m')) (triangles m') =
           map (corners (vertices m))
             (filter (\<lambda>(i, j, k). \<not> (vmask ! i \<or> vmask ! j \<or> vmask ! k)) (triangles m))"
proof -
  let ?kept = "filter (\<lambda>(v, b). \<not> b) (zip (vertices m) vmask)"
  let ?ts = "filter (\<lambda>(i, j, k). \<not> (vmask ! i \<or> vmask ! j \<or> vmask ! k)) (triangles m)"
  have m': "m' = \<lparr>vertices = map fst ?kept,
                 triangles = map (\<lambda>(i, j, k). (new_index vmask i, new_index vmask j, new_index vmask k)) ?ts\<rparr>"
    using res len by (simp add: remove_vertices_by_mask_def)
  have each: "\<And>i j k. (i, j, k) \<in> set ?ts \<Longrightarrow>
      i < length (vertices m) \<and> j < length (vertices m) \<and> k < length (vertices m) \<and>
      \<not> vmask ! i \<and> \<not> vmask ! j \<and> \<not> vmask ! k"
    using inb by (auto simp: faces_in_bounds_def list_all_iff)
  have bound: "faces_in_bounds (length (vertices m')) (triangles m')"
    unfolding m' faces_in_bounds_def list_all_iff
    using each new_index_less[OF len] by auto
  have corr: "map (corners (vertices m')) (triangles m') = map (corners (vertices m)) ?ts"
    unfolding m' using each new_index_less[OF len] kept_nth[OF len]
    by (auto simp: corners_def)
  from bound corr show ?thesis by simp
qed

lemma take3: "3 \<le> length r \<Longrightarrow> take 3 r = [r ! 0, r ! 1, r ! 2]"
proof -
  assume a: "3 \<le> length r"
  then obtain a0 a1 a2 rest where "r = a0 # a1 # a2 # rest"
    by (cases r; cases "tl r"; cases "tl (tl r)") auto
  then show ?thesis by simp
qed

lemma take3_drop3: "6 \<le> length r \<Longrightarrow> take 3 (drop 3 r) = [r ! 3, r ! 4, r ! 5]"
proof -
  assume a: "6 \<le> length r"
  then have "3 \<le> length (drop 3 r)" by simp
  then have "take 3 (drop 3 r) = [drop 3 r ! 0, drop 3 r ! 1, drop 3 r ! 2]"
    by (rule take3)
  with a show ?thesis by simp
qed

lemma short_rows_not_three:
  "length r = 4 \<or> length r = 5 \<Longrightarrow> length (map f (take 3 (drop 3 r))) \<noteq> 3"
  by auto

lemma load_xyz_columns:
  assumes rows: "read_text_rows L file_path = Inr (r1 # r2 # rs)"
    and same: "list_all (\<lambda>r. length r = n) (r1 # r2 # rs)"
  shows "n = 3 \<longrightarrow>
           load_xyz L file_path =
             Inr \<lparr>points = map (\<lambda>r. (r ! 0, r ! 1, r ! 2)) (r1 # r2 # rs),
                  pcd_colors = [], pcd_normals = []\<rparr>"
    and "6 \<le> n \<longrightarrow>
           load_xyz L file_path =
             Inr \<lparr>points = map (\<lambda>r. (r ! 0, r ! 1, r ! 2)) (r1 # r2 # rs),
                  pcd_colors =
                    map (\<lambda>r. (div_255 L (r ! 3), div_255 L (r ! 4), div_255 L (r ! 5)))
                      (r1 # r2 # rs),
                  pcd_normals = []\<rparr>"
    and "n = 4 \<or> n = 5 \<longrightarrow> load_xyz L file_path = Inl (LoadFailure ''cast error'')"
proof -
  let ?rows = "r1 # r2 # rs"
  have all: "\<And>r. r \<in> set ?rows \<Longrightarrow> length r = n"
    using same unfolding list_all_iff by blast
  have len1: "length r1 = n" using all by simp
  have ragged: "list_all (\<lambda>r'. length r' = length r1) (r2 # rs)"
    using same len1 unfolding list_all_iff by simp
  have arr: "1 < n \<Longrightarrow> np_loadtxt L file_path = Inr (Arr2 ?rows)"
    using rows ragged len1 by (simp add: np_loadtxt_def)
  have sh: "shape1 ?rows = n" using len1 by (simp add: shape1_def)
  have pts: "3 \<le> n \<Longrightarrow> Vector3dVector (map (take 3) ?rows) =
      Inr (map (\<lambda>r. (r ! 0, r ! 1, r ! 2)) ?rows)"
  proof -
    assume n3: "3 \<le> n"
    have t: "\<And>r. r \<in> set ?rows \<Longrightarrow> take 3 r = [r ! 0, r ! 1, r ! 2]"
      using all n3 by (simp add: take3)
    have eq: "map (take 3) ?rows = map (\<lambda>r. [r ! 0, r ! 1, r ! 2]) ?rows"
      using t by (intro map_cong refl)
    show ?thesis
      unfolding Vector3dVector_def eq by (simp add: list_all_iff)
  qed
  have cols6: "6 \<le> n \<Longrightarrow>
      Vector3dVector (map (\<lambda>r. map (div_255 L) (take 3 (drop 3 r))) ?rows) =
      Inr (map (\<lambda>r. (div_255 L (r ! 3), div_255 L (r ! 4), div_255 L (r ! 5))) ?rows)"
  proof -
    assume n6: "6 \<le> n"
    have t: "\<And>r. r \<in> set ?rows \<Longrightarrow>
        map (div_255 L) (take 3 (drop 3 r)) = [div_255 L (r ! 3), div_255 L (r ! 4), div_255 L (r ! 5)]"
      using all n6 by (simp add: take3_drop3)
    have eq: "map (\<lambda>r. map (div_255 L) (take 3 (drop 3 r))) ?rows =
          map (\<lambda>r. [div_255 L (r ! 3), div_255 L (r ! 4), div_255 L (r ! 5)]) ?rows"
      using t by (intro map_cong refl)
    show ?thesis
      unfolding Vector3dVector_def eq by (simp add: list_all_iff)
  qed
  have cols45: "n = 4 \<or> n = 5 \<Longrightarrow>
      Vector3dVector (map (\<lambda>r. map (div_255 L) (take 3 (drop 3 r))) ?rows) =
      Inl (LoadFailure ''cast error'')"
    using len1 by (auto simp: Vector3dVector_def)
  show "n = 3 \<longrightarrow>
           load_xyz L file_path =
             Inr \<lparr>points = map (\<lambda>r. (r ! 0, r ! 1, r ! 2)) ?rows,
                  pcd_colors = [], pcd_normals = []\<rparr>"
    using arr sh pts by (simp add: load_xyz_def)
  show "6 \<le> n \<longrightarrow>
           load_xyz L file_path =
             Inr \<lparr>points = map (\<lambda>r. (r ! 0, r ! 1, r ! 2)) ?rows,
                  pcd_colors =
                    map (\<lambda>r. (div_255 L (r ! 3), div_255 L (r ! 4), div_255 L (r ! 5))) ?rows,
                  pcd_normals = []\<rparr>"
    using arr sh pts cols6 by (simp add: load_xyz_def)
  show "n = 4 \<or> n = 5 \<longrightarrow> load_xyz L file_path = Inl (LoadFailure ''cast error'')"
    using arr sh pts cols45 by (auto simp: load_xyz_def)
qed

lemma save_results_ok:
  assumes dir: "dir_exists E output_dir \<or> makedirs_ok E output_dir"
    and opn: "open_ok E (output_dir, ''metadata_'' @ timestamp @ ''.json'')"
  shows "save_results E timestamp output_dir p =
      (Returned True, [ResultsSaved output_dir],
       (case point_cloud p of
          None \<Rightarrow> []
        | Some c \<Rightarrow> [((output_dir, ''processed_cloud_'' @ timestamp @ ''.ply''), CloudPly c)])
       @ (case mesh p of
            None \<Rightarrow> []
          | Some m \<Rightarrow> [((output_dir, ''mesh_'' @ timestamp @ ''.ply''), MeshPly m)])
       @ [((output_dir, ''metadata_'' @ timestamp @ ''.json''),
           JsonObject (metadata_dict timestamp p))])"
proof -
  have a: "\<not> (\<not> dir_exists E output_dir \<and> \<not> makedirs_ok E output_dir)"
    using dir by blast
  show ?thesis
    unfolding save_results_def Let_def if_not_P[OF a] using opn by (simp only: if_False if_True simp_thms)
qed

lemma metadata_dict_keys:
  "map fst (metadata_dict timestamp p) =
     [''processing_date'', ''original_points'', ''final_points'',
      ''mesh_vertices'', ''mesh_faces'']"
  by (simp add: metadata_dict_def)

lemma metadata_dict_original:
  "map_of (metadata_dict timestamp p) ''original_points'' =
     Some (JInt (case original_point_count p of None \<Rightarrow> 0 | Some n \<Rightarrow> n))"
  by (simp add: metadata_dict_def)

lemma metadata_dict_final:
  "map_of (metadata_dict timestamp p) ''final_points'' =
     Some (JInt (case point_cloud p of None \<Rightarrow> 0 | Some c \<Rightarrow> int (length (points c))))"
  by (simp add: metadata_dict_def)

lemma metadata_dict_vertices:
  "map_of (metadata_dict timestamp p) ''mesh_vertices'' =
     Some (JInt (case mesh p of None \<Rightarrow> 0 | Some m \<Rightarrow> int (length (vertices m))))"
  by (simp add: metadata_dict_def)

lemma metadata_dict_faces:
  "map_of (metadata_dict timestamp p) ''mesh_faces'' =
     Some (JInt (case mesh p of None \<Rightarrow> 0 | Some m \<Rightarrow> int (length (triangles m))))"
  by (simp add: metadata_dict_def)

lemma original_points_always_zero:
  "map_of (metadata_dict timestamp (run_stages L ss processor_init)) ''original_points''
     = Some (JInt 0)"
  by (simp add: metadata_dict_def run_stages_original_point_count processor_init_def)

lemma select_by_index_inv: "pcd_inv (select_by_index c idx)"
  by (simp add: pcd_inv_def select_by_index_def)

lemma voxel_down_sample_inv: "pcd_inv (voxel_down_sample L c cells)"
  by (simp add: pcd_inv_def voxel_down_sample_def)

lemma lib_estimate_normals_inv: "pcd_inv c \<Longrightarrow> pcd_inv (lib_estimate_normals L search_param c)"
  by (simp add: pcd_inv_def lib_estimate_normals_def)

lemma select_by_index_normals:
  "has_normals c \<Longrightarrow>
   zip (points (select_by_index c idx)) (pcd_normals (select_by_index c idx)) =
     map (\<lambda>i. (points c ! i, pcd_normals c ! i)) idx"
  by (simp add: select_by_index_def zip_map_map) (induction idx; simp)

lemma select_by_index_colors:
  "has_colors c \<Longrightarrow>
   zip (points (select_by_index c idx)) (pcd_colors (select_by_index c idx)) =
     map (\<lambda>i. (points c ! i, pcd_colors c ! i)) idx"
  by (simp add: select_by_index_def zip_map_map) (induction idx; simp)

lemma demo_poisson:
  "poisson demo_lib 8 (1 / 10) (11 / 10) demo_cloud =
     Inr \<lparr>pr_vertices = [((0, 0, 0), 1), ((1, 0, 0), 2), ((0, 1, 0), 3), ((0, 0, 1), 4)],
          pr_triangles = [(0, 1, 2), (1, 2, 3)]\<rparr>"
  by (simp add: demo_lib_def demo_cloud_def has_normals_def upt_rec)

lemma demo_quantile_value: "demo_quantile [1, 2, 3, 4] = 13 / 10"
  by (simp add: demo_quantile_def Let_def)

lemma returned_false_keeps_state:
  "call_stage L s p = (Returned False, logs, p') \<Longrightarrow> p' = p"
  by (cases s) (auto simp: stage_defs Let_def split: sum.splits option.splits if_splits)

lemma estimate_normals_raises:
  "point_cloud p = Some c \<Longrightarrow>
   estimate_normals L radius max_nn p =
     (Raised ''TypeError: __init__(): incompatible constructor arguments'', [], p)"
  by (simp add: estimate_normals_def KDTreeSearchParamRadius_def)

lemma call_stage_keeps_normals:
  "normals (snd (snd (call_stage L s p))) = normals p"
  by (cases s) (auto simp: stage_defs Let_def split: sum.splits option.splits if_splits)

lemma run_stages_normals_none:
  "normals (run_stages L ss processor_init) = None"
proof -
  have "normals (run_stages L ss p) = normals p" for p :: "'a processor"
    by (induction ss arbitrary: p) (simp_all add: call_stage_keeps_normals)
  then show ?thesis by (simp add: processor_init_def)
qed

lemma normals_in_step_reachable:
  "normals_in_step (run_stages L ss processor_init)"
  by (simp add: normals_in_step_def run_stages_normals_none split: option.splits)

lemma load_unreadable_geometry_file:
  "file_ext L file_path = ''.ply'' \<or> file_ext L file_path = ''.pcd'' \<Longrightarrow>
   read_geometry_file L file_path = None \<Longrightarrow>
   load_pointcloud L file_path p =
     (Returned True, [LoadedPoints 0],
      p\<lparr>point_cloud := Some \<lparr>points = [], pcd_colors = [], pcd_normals = []\<rparr>\<rparr>)"
  by (auto simp: load_pointcloud_def load_pointcloud_try_def load_ply_def load_pcd_def
        read_point_cloud_def)

lemma create_mesh_empty_reconstruction:
  "point_cloud p = Some c \<Longrightarrow> normals p = Some ns \<Longrightarrow>
   poisson L depth width scale c = Inr r \<Longrightarrow> pr_vertices r = [] \<Longrightarrow>
   create_mesh L depth width scale p =
     (Raised ''IndexError: index -1 is out of bounds for axis 0 with size 0'', [],
      p\<lparr>mesh := Some \<lparr>vertices = [], triangles = pr_triangles r\<rparr>\<rparr>)"
  by (simp add: create_mesh_def np_quantile_def)

section \<open>Claims\<close>

text \<open>
  C5. Loading can only succeed when the extension of the path, lowered, is one of
  \<^verbatim>\<open>.las\<close>, \<^verbatim>\<open>.laz\<close>, \<^verbatim>\<open>.ply\<close>, \<^verbatim>\<open>.pcd\<close>, \<^verbatim>\<open>.xyz\<close>; with any other
  extension the loader raises its unsupported-format error, which is logged, the
  method returns False and the processor is as before.
\<close>

theorem load_extension_dispatch:
  "(fst (load_pointcloud L file_path p) = Returned True \<longrightarrow>
      file_ext L file_path \<in> {''.las'', ''.laz'', ''.ply'', ''.pcd'', ''.xyz''}) \<and>
   (file_ext L file_path \<notin> {''.las'', ''.laz'', ''.ply'', ''.pcd'', ''.xyz''} \<longrightarrow>
      load_pointcloud L file_path p =
        (Returned False, [LoadFailed (UnsupportedFormat (file_ext L file_path))], p))"
  by (auto simp: load_pointcloud_def load_pointcloud_try_def Let_def split: sum.splits if_splits)

theorem load_extension_dispatch_witness:
  "file_ext demo_lib ''scans/two.obj'' \<notin> {''.las'', ''.laz'', ''.ply'', ''.pcd'', ''.xyz''} \<and>
   load_pointcloud demo_lib ''scans/two.obj'' demo_processor =
     (Returned False, [LoadFailed (UnsupportedFormat ''.obj'')], demo_processor) \<and>
   fst (load_pointcloud demo_lib ''scans/RGB.XYZ'' demo_processor) = Returned True \<and>
   file_ext demo_lib ''scans/RGB.XYZ'' = ''.xyz''"
proof -
  have obj: "file_ext demo_lib ''scans/two.obj'' = ''.obj''"
    by (simp add: loader_defs demo_lib_def)
  have rgb: "fst (load_pointcloud demo_lib ''scans/RGB.XYZ'' demo_processor) = Returned True"
    by (simp add: load_pointcloud_def loader_defs demo_lib_def)
  from load_extension_dispatch[of demo_lib "''scans/two.obj''" demo_processor] obj
  have 1: "load_pointcloud demo_lib ''scans/two.obj'' demo_processor =
     (Returned False, [LoadFailed (UnsupportedFormat ''.obj'')], demo_processor)"
    by simp
  from load_extension_dispatch[of demo_lib "''scans/RGB.XYZ''" demo_processor] rgb
  have 2: "file_ext demo_lib ''scans/RGB.XYZ'' \<in> {''.las'', ''.laz'', ''.ply'', ''.pcd'', ''.xyz''}"
    by simp
  have 3: "file_ext demo_lib ''scans/RGB.XYZ'' = ''.xyz''"
    by (simp add: loader_defs demo_lib_def)
  from obj 1 rgb 3 show ?thesis by simp
qed

text \<open>
  C7. Without a loaded point cloud, outlier removal, normal estimation and
  downsampling each return False, log nothing and leave the processor unchanged.
\<close>

theorem no_cloud_no_op:
  "point_cloud p = None \<Longrightarrow>
   remove_outliers L nb_neighbors std_ratio p = (Returned False, [], p) \<and>
   estimate_normals L radius max_nn p = (Returned False, [], p) \<and>
   downsample L voxel_size p = (Returned False, [], p)"
  by (simp add: remove_outliers_def estimate_normals_def downsample_def)

theorem no_cloud_no_op_witness:
  "point_cloud (processor_init :: rat processor) = None \<and>
   remove_outliers demo_lib 20 2 processor_init = (Returned False, [], processor_init) \<and>
   estimate_normals demo_lib (1 / 10) 30 processor_init = (Returned False, [], processor_init) \<and>
   downsample demo_lib (1 / 20) processor_init = (Returned False, [], processor_init)"
proof -
  have h: "point_cloud (processor_init :: rat processor) = None"
    by (simp add: processor_init_def)
  from h no_cloud_no_op[OF h, of demo_lib 20 2 "1 / 10" 30 "1 / 20"] show ?thesis by simp
qed

text \<open>
  C4. The claim is that a failing stage leaves the processor as it was and puts no
  default data in its place. A PLY or PCD file that cannot be read makes the reader
  of the geometry library return an empty cloud; \<^verbatim>\<open>load_pointcloud\<close> assigns it
  and returns True. Here a processor holding a cloud of two points is asked to load
  a PLY file that does not exist: it answers True and holds an empty cloud.
\<close>

theorem unreadable_file_replaces_cloud:
  "point_cloud (run_stages demo_lib [Load ''scans/two.xyz''] processor_init) =
     Some \<lparr>points = [(0, 0, 0), (1, 1, 1)], pcd_colors = [], pcd_normals = []\<rparr> \<and>
   read_geometry_file demo_lib ''scans/missing.ply'' = None \<and>
   load_pointcloud demo_lib ''scans/missing.ply''
       (run_stages demo_lib [Load ''scans/two.xyz''] processor_init) =
     (Returned True, [LoadedPoints 0],
      (processor_init :: rat processor)
        \<lparr>point_cloud := Some \<lparr>points = [], pcd_colors = [], pcd_normals = []\<rparr>\<rparr>)"
  by (simp add: load_pointcloud_def loader_defs demo_lib_def processor_init_def)

text \<open>
  C6. Mesh reconstruction returns False, without touching the processor, exactly when
  the point cloud or the normal array is missing; in particular it does so in every
  state that a fresh processor reaches through calls none of which is normal
  estimation.
\<close>

theorem create_mesh_prerequisites:
  "(fst (create_mesh L depth width scale p) = Returned False
      \<longleftrightarrow> point_cloud p = None \<or> normals p = None) \<and>
   (point_cloud p = None \<or> normals p = None \<longrightarrow>
      create_mesh L depth width scale p = (Returned False, [], p)) \<and>
   (list_all (\<lambda>s. \<not> is_estimate s) ss \<longrightarrow>
      create_mesh L depth width scale (run_stages L ss processor_init) =
        (Returned False, [], run_stages L ss processor_init))"
proof -
  have a: "fst (create_mesh L depth width scale p) = Returned False
      \<longleftrightarrow> point_cloud p = None \<or> normals p = None"
    by (auto simp: create_mesh_def remove_vertices_by_mask_def np_quantile_def Let_def
          split: sum.splits option.splits)
  have b: "\<And>q. point_cloud q = None \<or> normals q = None \<Longrightarrow>
      create_mesh L depth width scale q = (Returned False, [], q)"
    by (auto simp: create_mesh_def split: option.splits)
  have c: "list_all (\<lambda>s. \<not> is_estimate s) ss \<Longrightarrow>
      normals (run_stages L ss (processor_init :: 'a processor)) = None"
    by (simp add: run_stages_normals processor_init_def)
  from a b c show ?thesis by blast
qed

theorem create_mesh_prerequisites_witness:
  "list_all (\<lambda>s. \<not> is_estimate s) [Load ''scans/two.xyz'', RemoveOutliers 20 2] \<and>
   point_cloud (run_stages demo_lib [Load ''scans/two.xyz'', RemoveOutliers 20 2] processor_init)
     = Some \<lparr>points = [(0, 0, 0), (1, 1, 1)], pcd_colors = [], pcd_normals = []\<rparr> \<and>
   create_mesh demo_lib 8 (1 / 10) (11 / 10)
       (run_stages demo_lib [Load ''scans/two.xyz'', RemoveOutliers 20 2] processor_init) =
     (Returned False, [],
      run_stages demo_lib [Load ''scans/two.xyz'', RemoveOutliers 20 2] processor_init)"
proof -
  have h: "list_all (\<lambda>s. \<not> is_estimate s) [Load ''scans/two.xyz'', RemoveOutliers 20 (2 :: rat)]"
    by simp
  have c: "point_cloud (run_stages demo_lib [Load ''scans/two.xyz'', RemoveOutliers 20 2] processor_init)
     = Some \<lparr>points = [(0, 0, 0), (1, 1, 1)], pcd_colors = [], pcd_normals = []\<rparr>"
    by (simp add: load_pointcloud_def loader_defs demo_lib_def remove_outliers_def
          select_by_index_def has_colors_def has_normals_def processor_init_def)
  from create_mesh_prerequisites[of demo_lib 8 "1 / 10" "11 / 10" processor_init
         "[Load ''scans/two.xyz'', RemoveOutliers 20 2]"] h c
  show ?thesis by simp
qed



text \<open>
  C9. When the output directory exists or can be created and the metadata file can be
  opened, persisting returns True and the last file it writes is the metadata object,
  whose keys are exactly \<^verbatim>\<open>processing_date\<close>, \<^verbatim>\<open>original_points\<close>,
  \<^verbatim>\<open>final_points\<close>, \<^verbatim>\<open>mesh_vertices\<close>, \<^verbatim>\<open>mesh_faces\<close>. Each count is 0 when
  its artifact is absent, and with no cloud, no mesh and no recorded original count
  the metadata object is the only file written, with all counts 0.
\<close>

theorem save_results_writes_metadata:
  assumes dir: "dir_exists E output_dir \<or> makedirs_ok E output_dir"
    and opn: "open_ok E (output_dir, ''metadata_'' @ timestamp @ ''.json'')"
  shows "fst (save_results E timestamp output_dir p) = Returned True \<and>
         last (snd (snd (save_results E timestamp output_dir p))) =
           ((output_dir, ''metadata_'' @ timestamp @ ''.json''),
            JsonObject (metadata_dict timestamp p)) \<and>
         map fst (metadata_dict timestamp p) =
           [''processing_date'', ''original_points'', ''final_points'',
            ''mesh_vertices'', ''mesh_faces''] \<and>
         (original_point_count p = None \<longrightarrow>
            map_of (metadata_dict timestamp p) ''original_points'' = Some (JInt 0)) \<and>
         (point_cloud p = None \<longrightarrow>
            map_of (metadata_dict timestamp p) ''final_points'' = Some (JInt 0)) \<and>
         (mesh p = None \<longrightarrow>
            map_of (metadata_dict timestamp p) ''mesh_vertices'' = Some (JInt 0) \<and>
            map_of (metadata_dict timestamp p) ''mesh_faces'' = Some (JInt 0)) \<and>
         (point_cloud p = None \<and> mesh p = None \<and> original_point_count p = None \<longrightarrow>
            snd (snd (save_results E timestamp output_dir p)) =
              [((output_dir, ''metadata_'' @ timestamp @ ''.json''),
                JsonObject
                  [(''processing_date'', JString timestamp), (''original_points'', JInt 0),
                   (''final_points'', JInt 0), (''mesh_vertices'', JInt 0),
                   (''mesh_faces'', JInt 0)])])"
proof (intro conjI impI)
  note ok = save_results_ok[OF dir opn, of p]
  show "fst (save_results E timestamp output_dir p) = Returned True"
    by (simp only: ok fst_conv)
  show "last (snd (snd (save_results E timestamp output_dir p))) =
           ((output_dir, ''metadata_'' @ timestamp @ ''.json''),
            JsonObject (metadata_dict timestamp p))"
    by (simp only: ok snd_conv append_assoc[symmetric] last_snoc)
  show "map fst (metadata_dict timestamp p) =
           [''processing_date'', ''original_points'', ''final_points'',
            ''mesh_vertices'', ''mesh_faces'']"
    by (rule metadata_dict_keys)
  show "map_of (metadata_dict timestamp p) ''original_points'' = Some (JInt 0)"
    if "original_point_count p = None"
    using that by (simp only: metadata_dict_original option.case)
  show "map_of (metadata_dict timestamp p) ''final_points'' = Some (JInt 0)"
    if "point_cloud p = None"
    using that by (simp only: metadata_dict_final option.case)
  show "map_of (metadata_dict timestamp p) ''mesh_vertices'' = Some (JInt 0)"
    if "mesh p = None"
    using that by (simp only: metadata_dict_vertices option.case)
  show "map_of (metadata_dict timestamp p) ''mesh_faces'' = Some (JInt 0)"
    if "mesh p = None"
    using that by (simp only: metadata_dict_faces option.case)
  show "snd (snd (save_results E timestamp output_dir p)) =
              [((output_dir, ''metadata_'' @ timestamp @ ''.json''),
                JsonObject
                  [(''processing_date'', JString timestamp), (''original_points'', JInt 0),
                   (''final_points'', JInt 0), (''mesh_vertices'', JInt 0),
                   (''mesh_faces'', JInt 0)])]"
    if "point_cloud p = None \<and> mesh p = None \<and> original_point_count p = None"
  proof -
    from that have n: "point_cloud p = None" "mesh p = None" "original_point_count p = None"
      by simp_all
    show ?thesis
      by (simp only: ok snd_conv n option.case append_Nil metadata_dict_def)
  qed
qed

theorem save_results_writes_metadata_witness:
  "(dir_exists demo_os ''out'' \<or> makedirs_ok demo_os ''out'') \<and>
   open_ok demo_os (''out'', ''metadata_'' @ ''20240101_120000'' @ ''.json'') \<and>
   point_cloud (processor_init :: rat processor) = None \<and>
   mesh (processor_init :: rat processor) = None \<and>
   original_point_count (processor_init :: rat processor) = None \<and>
   fst (save_results demo_os ''20240101_120000'' ''out'' (processor_init :: rat processor)) =
     Returned True \<and>
   snd (snd (save_results demo_os ''20240101_120000'' ''out'' (processor_init :: rat processor))) =
     [((''out'', ''metadata_20240101_120000.json''),
       JsonObject
         [(''processing_date'', JString ''20240101_120000''), (''original_points'', JInt 0),
          (''final_points'', JInt 0), (''mesh_vertices'', JInt 0), (''mesh_faces'', JInt 0)])]"
proof -
  have d: "dir_exists demo_os ''out'' \<or> makedirs_ok demo_os ''out''"
    by (simp add: demo_os_def)
  have f: "open_ok demo_os (''out'', ''metadata_'' @ ''20240101_120000'' @ ''.json'')"
    by (simp add: demo_os_def)
  have n: "point_cloud (processor_init :: rat processor) = None"
    "mesh (processor_init :: rat processor) = None"
    "original_point_count (processor_init :: rat processor) = None"
    by (simp_all add: processor_init_def)
  from save_results_writes_metadata[OF d f, of "processor_init :: rat processor"] n d f
  show ?thesis by simp
qed

text \<open>
  C1. The claim is that \<^verbatim>\<open>original_points\<close> is the point count of the loaded
  cloud. No method assigns \<^verbatim>\<open>original_point_count\<close>, so the value written is 0:
  here a file of two points is loaded and persisted, and the metadata reports
  \<^verbatim>\<open>original_points\<close> 0 next to \<^verbatim>\<open>final_points\<close> 2.
\<close>

theorem original_points_not_recorded:
  "fst (load_pointcloud demo_lib ''scans/two.xyz'' processor_init) = Returned True \<and>
   point_cloud (run_stages demo_lib [Load ''scans/two.xyz''] processor_init) =
     Some \<lparr>points = [(0, 0, 0), (1, 1, 1)], pcd_colors = [], pcd_normals = []\<rparr> \<and>
   save_results demo_os ''20240101_120000'' ''out''
       (run_stages demo_lib [Load ''scans/two.xyz''] processor_init) =
     (Returned True, [ResultsSaved ''out''],
      [((''out'', ''processed_cloud_20240101_120000.ply''),
        CloudPly \<lparr>points = [(0, 0, 0), (1, 1, 1)], pcd_colors = [], pcd_normals = []\<rparr>),
       ((''out'', ''metadata_20240101_120000.json''),
        JsonObject
          [(''processing_date'', JString ''20240101_120000''), (''original_points'', JInt 0),
           (''final_points'', JInt 2), (''mesh_vertices'', JInt 0), (''mesh_faces'', JInt 0)])])"
  by (simp add: load_pointcloud_def loader_defs demo_lib_def demo_os_def processor_init_def
        save_results_def metadata_dict_def)

text \<open>
  C2. The claim is that colours are built exactly for lines of at least six fields and
  that lines of three, four or five fields give a cloud without colours. The
  loader tests \<^verbatim>\<open>data.shape[1] > 3\<close>: on a file of two lines with four fields each it
  builds a colour array of one column, which the vector conversion refuses, and the
  load fails. A file of a single line is a 1D array and fails at \<^verbatim>\<open>data[:, :3]\<close>.
\<close>

theorem load_xyz_extra_columns_fail:
  "load_xyz demo_lib ''scans/xyzi.xyz'' = Inl (LoadFailure ''cast error'') \<and>
   load_pointcloud demo_lib ''scans/xyzi.xyz'' processor_init =
     (Returned False, [LoadFailed (LoadFailure ''cast error'')], processor_init) \<and>
   load_xyz demo_lib ''scans/one.xyz'' = Inl (LoadFailure ''too many indices for array'') \<and>
   load_pointcloud demo_lib ''scans/one.xyz'' processor_init =
     (Returned False, [LoadFailed (LoadFailure ''too many indices for array'')], processor_init)"
  by (simp add: load_pointcloud_def loader_defs demo_lib_def)

text \<open>
  C3. The claim is that normal estimation produces one normal per point. The method
  builds its search parameter with \<^verbatim>\<open>KDTreeSearchParamRadius(radius=radius,
  max_nn=max_nn)\<close>, which raises TypeError, so on a loaded cloud it never reaches the
  estimator: here a file of two points is loaded, normal estimation raises, and
  neither the cloud nor the processor holds a normal.
\<close>

theorem normal_estimation_raises:
  "point_cloud (run_stages demo_lib [Load ''scans/two.xyz''] processor_init) =
     Some \<lparr>points = [(0, 0, 0), (1, 1, 1)], pcd_colors = [], pcd_normals = []\<rparr> \<and>
   estimate_normals demo_lib (1 / 10) 30
       (run_stages demo_lib [Load ''scans/two.xyz''] processor_init) =
     (Raised ''TypeError: __init__(): incompatible constructor arguments'', [],
      run_stages demo_lib [Load ''scans/two.xyz''] processor_init) \<and>
   normals (run_stages demo_lib [Load ''scans/two.xyz'', EstimateNormals (1 / 10) 30]
              processor_init) = None \<and>
   point_cloud (run_stages demo_lib [Load ''scans/two.xyz'', EstimateNormals (1 / 10) 30]
                  processor_init) =
     Some \<lparr>points = [(0, 0, 0), (1, 1, 1)], pcd_colors = [], pcd_normals = []\<rparr>"
  by (simp add: load_pointcloud_def loader_defs demo_lib_def processor_init_def
        estimate_normals_def KDTreeSearchParamRadius_def)

text \<open>
  C8. When the reconstruction returns a mesh with at least one vertex whose faces are
  within bounds, mesh creation succeeds and stores a mesh whose vertices are exactly
  those whose density is not below the quantile, in their order; there are no more of
  them than before, every face index of the stored mesh is within bounds of the
  pruned vertex list, and the faces of the stored mesh are the faces none of whose
  vertices was removed, referring to the same vertices as before.
\<close>

theorem create_mesh_prunes_low_density:
  assumes pc: "point_cloud p = Some c" and ns: "normals p = Some ns"
    and rec: "poisson L depth width scale c = Inr r"
    and ne: "pr_vertices r \<noteq> []"
    and inb: "faces_in_bounds (length (pr_vertices r)) (pr_triangles r)"
  shows
    "\<exists>m. create_mesh L depth width scale p =
            (Returned True, [MeshCreated (length (vertices m))], p\<lparr>mesh := Some m\<rparr>) \<and>
         vertices m =
           map fst (filter (\<lambda>(v, d). \<not> float_less L d (quantile_tenth L (map snd (pr_vertices r))))
                      (pr_vertices r)) \<and>
         length (vertices m) \<le> length (pr_vertices r) \<and>
         faces_in_bounds (length (vertices m)) (triangles m) \<and>
         map (corners (vertices m)) (triangles m) =
           map (corners (map fst (pr_vertices r)))
             (filter (\<lambda>(i, j, k).
                        \<not> (float_less L (snd (pr_vertices r ! i))
                               (quantile_tenth L (map snd (pr_vertices r))) \<or>
                            float_less L (snd (pr_vertices r ! j))
                               (quantile_tenth L (map snd (pr_vertices r))) \<or>
                            float_less L (snd (pr_vertices r ! k))
                               (quantile_tenth L (map snd (pr_vertices r)))))
                (pr_triangles r))"
proof -
  let ?q = "quantile_tenth L (map snd (pr_vertices r))"
  let ?vm = "map (\<lambda>d. float_less L d ?q) (map snd (pr_vertices r))"
  let ?m0 = "\<lparr>vertices = map fst (pr_vertices r), triangles = pr_triangles r\<rparr>"
  have len: "length ?vm = length (vertices ?m0)" by simp
  obtain m where m: "remove_vertices_by_mask ?m0 ?vm = Inr m"
    by (simp add: remove_vertices_by_mask_def)
  have run: "create_mesh L depth width scale p =
      (Returned True, [MeshCreated (length (vertices m))], p\<lparr>mesh := Some m\<rparr>)"
    using pc ns rec m ne by (simp add: create_mesh_def np_quantile_def Let_def)
  have vs: "vertices m = map fst (filter (\<lambda>(v, d). \<not> float_less L d ?q) (pr_vertices r))"
  proof -
    have "vertices m = map fst (filter (\<lambda>(v, b). \<not> b) (zip (map fst (pr_vertices r)) ?vm))"
      using m by (auto simp: remove_vertices_by_mask_def)
    then show ?thesis by (simp only: kept_filter)
  qed
  have le: "length (vertices m) \<le> length (pr_vertices r)"
    unfolding vs by simp
  have inb0: "faces_in_bounds (length (vertices ?m0)) (triangles ?m0)"
    using inb by simp
  note faces = remove_vertices_by_mask_faces[OF len inb0 m]
  have filt: "filter (\<lambda>(i, j, k). \<not> (?vm ! i \<or> ?vm ! j \<or> ?vm ! k)) (pr_triangles r) =
      filter (\<lambda>(i, j, k).
                \<not> (float_less L (snd (pr_vertices r ! i)) ?q \<or>
                    float_less L (snd (pr_vertices r ! j)) ?q \<or>
                    float_less L (snd (pr_vertices r ! k)) ?q))
        (pr_triangles r)"
    using inb by (intro filter_cong refl) (auto simp: faces_in_bounds_def list_all_iff)
  have corr: "map (corners (vertices m)) (triangles m) =
      map (corners (map fst (pr_vertices r)))
        (filter (\<lambda>(i, j, k).
                   \<not> (float_less L (snd (pr_vertices r ! i)) ?q \<or>
                       float_less L (snd (pr_vertices r ! j)) ?q \<or>
                       float_less L (snd (pr_vertices r ! k)) ?q))
           (pr_triangles r))"
    using faces filt by simp
  from run vs le faces corr show ?thesis by blast
qed

theorem create_mesh_prunes_low_density_witness:
  "point_cloud demo_processor = Some demo_cloud \<and>
   normals demo_processor = Some [(0, 0, 1), (0, 0, 1), (0, 0, 1), (0, 0, 1)] \<and>
   poisson demo_lib 8 (1 / 10) (11 / 10) demo_cloud =
     Inr \<lparr>pr_vertices = [((0, 0, 0), 1), ((1, 0, 0), 2), ((0, 1, 0), 3), ((0, 0, 1), 4)],
          pr_triangles = [(0, 1, 2), (1, 2, 3)]\<rparr> \<and>
   [((0, 0, 0), 1), ((1, 0, 0), 2), ((0, 1, 0), 3), ((0, 0, 1), 4 :: rat)] \<noteq> [] \<and>
   faces_in_bounds 4 [(0, 1, 2), (1, 2, 3)] \<and>
   create_mesh demo_lib 8 (1 / 10) (11 / 10) demo_processor =
     (Returned True, [MeshCreated 3],
      demo_processor\<lparr>mesh :=
        Some \<lparr>vertices = [(1, 0, 0), (0, 1, 0), (0, 0, 1)], triangles = [(0, 1, 2)]\<rparr>\<rparr>) \<and>
   faces_in_bounds 3 [(0, 1, 2)]"
proof -
  let ?r = "\<lparr>pr_vertices = [((0, 0, 0), 1), ((1, 0, 0), 2), ((0, 1, 0), 3), ((0, 0, 1), 4 :: rat)],
             pr_triangles = [(0, 1, 2), (1, 2, 3)]\<rparr>"
  let ?M = "\<lparr>vertices = [(1, 0, 0), (0, 1, 0), (0, 0, 1 :: rat)], triangles = [(0, 1, 2)]\<rparr>"
  have pc: "point_cloud demo_processor = Some demo_cloud"
    by (simp add: demo_processor_def)
  have ns: "normals demo_processor = Some [(0, 0, 1), (0, 0, 1), (0, 0, 1), (0, 0, 1)]"
    by (simp add: demo_processor_def)
  have rec: "poisson demo_lib 8 (1 / 10) (11 / 10) demo_cloud = Inr ?r"
    by (rule demo_poisson)
  have inb: "faces_in_bounds (length (pr_vertices ?r)) (pr_triangles ?r)"
    by (simp add: faces_in_bounds_def)
  have q: "quantile_tenth demo_lib [1, 2, 3, 4] = 13 / 10"
    by (simp add: demo_lib_def demo_quantile_value)
  have fl: "float_less demo_lib = (\<lambda>a b. a < b)"
    by (simp add: demo_lib_def)
  have run: "create_mesh demo_lib 8 (1 / 10) (11 / 10) demo_processor =
      (Returned True, [MeshCreated 3], demo_processor\<lparr>mesh := Some ?M\<rparr>)"
    using pc ns rec q fl
    by (simp add: create_mesh_def np_quantile_def Let_def remove_vertices_by_mask_def
          new_index_def)
  have ne: "pr_vertices ?r \<noteq> []" by simp
  from create_mesh_prunes_low_density[OF pc ns rec ne inb]
  obtain m where m: "create_mesh demo_lib 8 (1 / 10) (11 / 10) demo_processor =
        (Returned True, [MeshCreated (length (vertices m))], demo_processor\<lparr>mesh := Some m\<rparr>)"
      and fb: "faces_in_bounds (length (vertices m)) (triangles m)"
    by blast
  from m run have "mesh (demo_processor\<lparr>mesh := Some m\<rparr>) = mesh (demo_processor\<lparr>mesh := Some ?M\<rparr>)"
    by simp
  then have "m = ?M" by simp
  with fb have fb3: "faces_in_bounds 3 [(0, 1, 2)]" by (simp add: numeral_3_eq_3)
  have inb4: "faces_in_bounds 4 [(0, 1, 2), (1, 2, 3)]" by (simp add: faces_in_bounds_def)
  from pc ns rec inb4 run fb3 show ?thesis by simp
qed

end
